theory Spec2Isabelle
  imports Complex_Main
begin

section \<open>solarplanets: the exported functions of index.mjs\<close>

text \<open>
  The module computes with JavaScript numbers (IEEE-754 doubles). A number is a
  \<open>real\<close> here, and \<open>Math.sin\<close>, \<open>Math.cos\<close>, \<open>Math.tan\<close>, \<open>Math.sqrt\<close>,
  \<open>Math.floor\<close> and \<open>Math.abs\<close> are the real functions of the same name. The constant
  \<open>Math.PI\<close> is the double it is, not the real \<open>\<pi>\<close>. Rounding to the nearest double is
  modelled by \<open>double_round\<close> where a property below is decided by it: in the sum of
  \<open>posmod\<close> and in \<open>getCurrentElements\<close>. The Newton-Raphson loop, the frame
  transforms and the perifocal position are computed over the reals, as the properties
  about them are stated. The values NaN and Infinity have no counterpart: where
  JavaScript would produce one (a division or a remainder by zero, the square root of
  a negative number, an overflow) the theorems carry the hypothesis that excludes it.
  A thrown \<open>TypeError\<close> and a read that yields \<open>undefined\<close> are results of the model.

  index.mjs holds an early draft of the module followed by the published module; the
  definitions follow the published one (the \<open>export function\<close> declarations).
\<close>

subsection \<open>Doubles\<close>

text \<open>
  \<open>Math.PI\<close> is the double nearest to \<open>\<pi>\<close>, \<open>884279719003555 / 2^48\<close>
  (3.141592653589793115997963...).
\<close>

definition Math_PI :: real where
  "Math_PI = 884279719003555 / 2 ^ 48"

text \<open>
  Rounding to the nearest double, ties to the even significand: a real \<open>x\<close> with
  \<open>2^k \<le> \<bar>x\<bar> < 2^(k+1)\<close> is rounded to a multiple of \<open>2^(k-52)\<close>, the spacing of the
  doubles of that size. The exponent is not bounded: overflow and the subnormal
  numbers (below \<open>2^-1022\<close>) are outside the model.
\<close>

definition round_half_even :: "real \<Rightarrow> int" where
  "round_half_even m =
     (let f = \<lfloor>m\<rfloor>
      in if m - of_int f < 1 / 2 then f
         else if 1 / 2 < m - of_int f then f + 1
         else if even f then f else f + 1)"

definition double_round :: "real \<Rightarrow> real" where
  "double_round x =
     (if x = 0 then 0
      else let ulp = 2 powr (of_int \<lfloor>log 2 \<bar>x\<bar>\<rfloor> - 52)
           in ulp * of_int (round_half_even (x / ulp)))"

subsection \<open>Time conversion\<close>

text \<open>
  \<open>INT(f) = f < 0 ? Math.floor(f + 1.0) : Math.floor(f)\<close>. The name \<open>INT\<close> is
  taken by the notation of HOL, so the function is \<open>INT_js\<close> here.
\<close>

definition INT_js :: "real \<Rightarrow> real" where
  "INT_js f = (if f < 0 then of_int \<lfloor>f + 1.0\<rfloor> else of_int \<lfloor>f\<rfloor>)"

text \<open>
  Truncation toward zero, as the specification words it: the integer part of \<open>f\<close>,
  rounded down for a non-negative and up for a negative operand.
\<close>

definition truncate_toward_zero :: "real \<Rightarrow> real" where
  "truncate_toward_zero f = (if f < 0 then of_int \<lceil>f\<rceil> else of_int \<lfloor>f\<rfloor>)"

definition getJ0FromDatevec :: "real \<Rightarrow> real \<Rightarrow> real \<Rightarrow> real" where
  "getJ0FromDatevec y m d =
     367 * y - INT_js (7 * (y + INT_js ((m + 9) / 12)) / 4) + INT_js (275 * m / 9) + d + 1721013.5"

subsection \<open>Element interpolation\<close>

text \<open>\<open>return Q0 + dQ * T0\<close>: the product is rounded, then the sum.\<close>

definition getCurrentElements :: "real \<Rightarrow> real \<Rightarrow> real \<Rightarrow> real" where
  "getCurrentElements Q0 dQ T0 = double_round (Q0 + double_round (dQ * T0))"

subsection \<open>Positive modulus\<close>

text \<open>
  JavaScript's \<open>a % b\<close> on numbers is the remainder of the truncating division: it
  is \<open>a - b * q\<close> where the integer \<open>q\<close> is the quotient \<open>a / b\<close> rounded toward
  zero, so the result has the sign of \<open>a\<close>. The remainder of two doubles is a double:
  it is not rounded. (For \<open>b = 0\<close> JavaScript yields NaN.)
\<close>

definition js_rem :: "real \<Rightarrow> real \<Rightarrow> real" where
  "js_rem a b = a - b * of_int (if a / b < 0 then \<lceil>a / b\<rceil> else \<lfloor>a / b\<rfloor>)"

text \<open>\<open>const c = a % b; return c < 0 ? c + b : c\<close>: the sum \<open>c + b\<close> is rounded.\<close>

definition posmod :: "real \<Rightarrow> real \<Rightarrow> real" where
  "posmod a b = (let c = js_rem a b in if c < 0 then double_round (c + b) else c)"

subsection \<open>Anomaly solver: eccentric anomaly\<close>

text \<open>
  \<open>getEaFromMaE\<close> runs a \<open>while\<close> loop over four variables. The record holds them;
  \<open>nMax = 1e3\<close> and \<open>tol = 1e-8\<close> are the constants of the function.
\<close>

record solver_state =
  st_E_rad :: real
  st_isConverged :: bool
  st_isOverrun :: bool
  st_n :: nat

definition nMax :: nat where
  "nMax = 1000"

definition tol :: real where
  "tol = 1 / 10 ^ 8"

text \<open>The variables before the loop: the initial guess and the two flags, both false.\<close>

definition getEaFromMaE_init :: "real \<Rightarrow> real \<Rightarrow> solver_state" where
  "getEaFromMaE_init M_rad e =
     \<lparr>st_E_rad = (if M_rad < Math_PI then M_rad + 0.5 * e else M_rad - 0.5 * e),
      st_isConverged = False, st_isOverrun = False, st_n = 0\<rparr>"

text \<open>\<open>const df = 1 - e * Math.cos(E_rad)\<close>, the denominator of the correction.\<close>

definition getEaFromMaE_df :: "real \<Rightarrow> real \<Rightarrow> real" where
  "getEaFromMaE_df e E_rad = 1 - e * cos E_rad"

text \<open>One run of the loop body.\<close>

definition getEaFromMaE_body :: "real \<Rightarrow> real \<Rightarrow> solver_state \<Rightarrow> solver_state" where
  "getEaFromMaE_body M_rad e s =
     (let f = st_E_rad s - e * sin (st_E_rad s) - M_rad;
          df = getEaFromMaE_df e (st_E_rad s);
          r = f / df;
          n' = st_n s + 1;
          isConverged' = (\<bar>r\<bar> < tol);
          isOverrun' = (nMax < n')
      in \<lparr>st_E_rad = (if \<not> isConverged' then st_E_rad s - r else st_E_rad s),
          st_isConverged = isConverged', st_isOverrun = isOverrun', st_n = n'\<rparr>)"







subsection \<open>Anomaly solver: true anomaly\<close>



subsection \<open>Perifocal state\<close>




subsection \<open>Linear algebra on arrays\<close>

text \<open>
  A vector is an array of numbers and a matrix an array of rows. Reading a property
  of \<open>undefined\<close> (a row that is not there) throws a \<open>TypeError\<close>; reading a cell
  that is not there yields \<open>undefined\<close>, which arithmetic turns into NaN. The source
  goes on with that value; the model has no number for it and stops with
  \<open>UndefinedValue\<close>.
\<close>

datatype js_error = TypeError | UndefinedValue

text \<open>The first failure of a list of results, or all their values.\<close>

fun collect :: "(js_error + 'a) list \<Rightarrow> js_error + 'a list" where
  "collect [] = Inr []"
| "collect (x # xs) =
     (case x of
        Inl err \<Rightarrow> Inl err
      | Inr v \<Rightarrow> (case collect xs of Inl err \<Rightarrow> Inl err | Inr vs \<Rightarrow> Inr (v # vs)))"

text \<open>\<open>R1(rad)\<close> and \<open>R3(rad)\<close>: the frame transformations about the x and the z axis.\<close>

definition R1 :: "real \<Rightarrow> real list list" where
  "R1 rad = (let c = cos rad; s = sin rad in [[1, 0, 0], [0, c, s], [0, - s, c]])"

definition R3 :: "real \<Rightarrow> real list list" where
  "R3 rad = (let c = cos rad; s = sin rad in [[c, s, 0], [- s, c, 0], [0, 0, 1]])"

text \<open>
  \<open>getDotProd\<close>: the loop \<open>for (i = 0; i < lhs.length; i += 1) sum += lhs[i] * rhs[i]\<close>.
\<close>

definition getDotProd :: "real list \<Rightarrow> real list \<Rightarrow> js_error + real" where
  "getDotProd lhs rhs =
     (if length rhs < length lhs then Inl UndefinedValue
      else Inr (fold (\<lambda>i sum. sum + lhs ! i * rhs ! i) [0..<length lhs] 0))"

text \<open>
  \<open>getMatMul\<close> reads the cells \<open>[0..2][0..2]\<close> of both arguments before it multiplies.
\<close>

definition getMatMul :: "real list list \<Rightarrow> real list list \<Rightarrow> js_error + real list list" where
  "getMatMul lhs rhs =
     (if length lhs < 3 \<or> length rhs < 3 then Inl TypeError
      else if list_ex (\<lambda>row. length row < 3) (take 3 lhs) \<or>
              list_ex (\<lambda>row. length row < 3) (take 3 rhs) then Inl UndefinedValue
      else
        let r1 = [lhs ! 0 ! 0, lhs ! 0 ! 1, lhs ! 0 ! 2];
            r2 = [lhs ! 1 ! 0, lhs ! 1 ! 1, lhs ! 1 ! 2];
            r3 = [lhs ! 2 ! 0, lhs ! 2 ! 1, lhs ! 2 ! 2];
            c1 = [rhs ! 0 ! 0, rhs ! 1 ! 0, rhs ! 2 ! 0];
            c2 = [rhs ! 0 ! 1, rhs ! 1 ! 1, rhs ! 2 ! 1];
            c3 = [rhs ! 0 ! 2, rhs ! 1 ! 2, rhs ! 2 ! 2]
        in collect
             [collect [getDotProd r1 c1, getDotProd r1 c2, getDotProd r1 c3],
              collect [getDotProd r2 c1, getDotProd r2 c2, getDotProd r2 c3],
              collect [getDotProd r3 c1, getDotProd r3 c2, getDotProd r3 c3]])"

definition getQeci2pqw :: "real \<Rightarrow> real \<Rightarrow> real \<Rightarrow> js_error + real list list" where
  "getQeci2pqw raan_rad inc_rad aop_rad =
     (case getMatMul (R3 aop_rad) (R1 inc_rad) of
        Inl err \<Rightarrow> Inl err
      | Inr R31 \<Rightarrow> getMatMul R31 (R3 raan_rad))"

text \<open>
  \<open>transpose(M)\<close> (\<open>transpose_js\<close> here, beside the \<open>transpose\<close> of HOL's lists):
  \<open>I = M.length\<close>, \<open>J = M[0].length\<close> (a \<open>TypeError\<close> when \<open>M\<close> is empty), \<open>Mt\<close> is
  \<open>J\<close> fresh rows of \<open>I\<close> zeros, and the two loops store \<open>Mt[j][i] = M[i][j]\<close>. A row
  shorter than the first one makes \<open>M[i][j]\<close> undefined.
\<close>

definition transpose_js :: "'a::zero list list \<Rightarrow> js_error + 'a list list" where
  "transpose_js M =
     (if M = [] then Inl TypeError
      else
        let I = length M;
            J = length (M ! 0);
            Mt = replicate J (replicate I 0)
        in if list_ex (\<lambda>row. length row < J) M then Inl UndefinedValue
           else Inr (fold (\<lambda>i Mt. fold (\<lambda>j Mt. Mt[j := (Mt ! j)[i := M ! i ! j]]) [0..<J] Mt)
                       [0..<I] Mt))"

definition getQpqw2eci :: "real \<Rightarrow> real \<Rightarrow> real \<Rightarrow> js_error + real list list" where
  "getQpqw2eci raan_rad inc_rad aop_rad =
     (case getQeci2pqw raan_rad inc_rad aop_rad of
        Inl err \<Rightarrow> Inl err
      | Inr Qeci2pqw \<Rightarrow> transpose_js Qeci2pqw)"

text \<open>The 3x3 identity matrix.\<close>

definition identity3 :: "real list list" where
  "identity3 = [[1, 0, 0], [0, 1, 0], [0, 0, 1]]"

section \<open>Properties\<close>

subsection \<open>INT\<close>

text \<open>
  \<open>INT\<close> rounds a non-negative operand down and a negative operand that is not an
  integer up, as truncation toward zero does; a negative integer it moves up by one.
\<close>

lemma INT_nonneg: "0 \<le> f \<Longrightarrow> INT_js f = of_int \<lfloor>f\<rfloor>"
  by (simp add: INT_js_def)

lemma INT_negative: "f < 0 \<Longrightarrow> INT_js f = of_int \<lfloor>f\<rfloor> + 1"
  by (simp add: INT_js_def)

lemma INT_negative_non_integer:
  assumes "f < 0" and "f \<notin> \<int>"
  shows "INT_js f = of_int \<lceil>f\<rceil>"
proof -
  have "\<lceil>f\<rceil> = \<lfloor>f\<rfloor> + 1"
    using assms(2) by (simp add: ceiling_altdef) (metis Ints_of_int)
  then show ?thesis
    using assms(1) by (simp add: INT_negative)
qed

lemma INT_negative_integer:
  assumes "f < 0" and "f \<in> \<int>"
  shows "INT_js f = f + 1"
  using assms by (auto simp: INT_negative elim!: Ints_cases)

text \<open>
  C1 (the code departs from the claim). The claim: \<open>INT\<close> is truncation toward zero
  on every real, so \<open>INT(f) = f\<close> for a negative integer \<open>f\<close>. On the code,
  \<open>INT(-1) = Math.floor(-1 + 1.0) = 0\<close>, while truncation toward zero leaves \<open>-1\<close>.
\<close>

theorem INT_minus_one_is_zero:
  "INT_js (-1) = 0 \<and> truncate_toward_zero (-1) = -1 \<and> INT_js (-1) \<noteq> truncate_toward_zero (-1)"
  by (simp add: INT_js_def truncate_toward_zero_def)

text \<open>
  The same inside \<open>getJ0FromDatevec\<close>: for the year \<open>-4\<close> the operand
  \<open>7 * (y + INT((m + 9) / 12)) / 4\<close> is \<open>-7\<close>, which \<open>INT\<close> turns into \<open>-6\<close>.
\<close>

lemma getJ0FromDatevec_negative_year:
  "INT_js (7 * (-4 + INT_js ((1 + 9) / 12)) / 4) = -6 \<and>
   getJ0FromDatevec (-4) 1 1 = 1719582.5"
  by (simp add: getJ0FromDatevec_def INT_js_def)

subsection \<open>Rounding to the nearest double\<close>

lemma round_half_even_error: "\<bar>of_int (round_half_even m) - m\<bar> \<le> 1 / 2"
  unfolding round_half_even_def Let_def by (auto simp: abs_if) linarith+

lemma round_half_even_of_int: "round_half_even (of_int z) = z"
  by (simp add: round_half_even_def)

lemma double_round_binade:
  fixes k :: int
  assumes "2 powr of_int k \<le> \<bar>x\<bar>" and "\<bar>x\<bar> < 2 powr (of_int k + 1)"
  shows "double_round x =
         2 powr (of_int k - 52) * of_int (round_half_even (x / 2 powr (of_int k - 52)))"
proof -
  have "0 < 2 powr (of_int k :: real)"
    by simp
  with assms(1) have pos: "0 < \<bar>x\<bar>"
    by linarith
  then have "\<lfloor>log 2 \<bar>x\<bar>\<rfloor> = k"
    using assms by (simp add: floor_log_eq_powr_iff)
  with pos show ?thesis
    by (simp add: double_round_def Let_def)
qed

text \<open>The relative error of a rounding is at most \<open>2^-53\<close>.\<close>

lemma double_round_error: "\<bar>double_round x - x\<bar> \<le> \<bar>x\<bar> / 2 ^ 53"
proof (cases "x = 0")
  case True
  then show ?thesis by (simp add: double_round_def)
next
  case False
  define k where "k = \<lfloor>log 2 \<bar>x\<bar>\<rfloor>"
  define ulp :: real where "ulp = 2 powr (of_int k - 52)"
  have ulp0: "0 < ulp"
    by (simp add: ulp_def)
  have lo: "2 powr of_int k \<le> \<bar>x\<bar>"
    using False floor_log_eq_powr_iff [of "\<bar>x\<bar>" 2 k] by (simp add: k_def)
  have dr: "double_round x = ulp * of_int (round_half_even (x / ulp))"
    using False by (simp add: double_round_def Let_def k_def ulp_def)
  have "double_round x - x = ulp * (of_int (round_half_even (x / ulp)) - x / ulp)"
    using ulp0 by (simp add: dr algebra_simps)
  then have "\<bar>double_round x - x\<bar> = ulp * \<bar>of_int (round_half_even (x / ulp)) - x / ulp\<bar>"
    using ulp0 by (simp add: abs_mult)
  also have "\<dots> \<le> ulp * (1 / 2)"
    using ulp0 round_half_even_error [of "x / ulp"] by (intro mult_left_mono) auto
  also have "ulp * (1 / 2) = 2 powr of_int k / 2 ^ 53"
    by (simp add: ulp_def powr_diff)
  also have "\<dots> \<le> \<bar>x\<bar> / 2 ^ 53"
    using lo by (simp add: divide_right_mono)
  finally show ?thesis .
qed

lemma round_half_even_nearest:
  assumes "\<bar>m - of_int z\<bar> < 1 / 2"
  shows "round_half_even m = z"
proof -
  have "\<lfloor>m\<rfloor> = z \<or> \<lfloor>m\<rfloor> = z - 1"
    using assms by (auto simp: abs_if floor_eq_iff split: if_splits) (linarith+)?
  then show ?thesis
    using assms unfolding round_half_even_def Let_def
    by (auto simp: abs_if split: if_splits) (linarith+)?
qed

lemma round_half_even_tie:
  assumes "m = of_int z + 1 / 2" and "even z"
  shows "round_half_even m = z"
proof -
  have "\<lfloor>m\<rfloor> = z"
    unfolding assms(1) by (simp add: floor_eq_iff)
  then show ?thesis
    using assms by (simp add: round_half_even_def Let_def)
qed

lemma double_round_ulp:
  fixes j :: int
  assumes "ulp = 2 powr of_int j" and "ulp * 2 ^ 52 \<le> \<bar>x\<bar>" and "\<bar>x\<bar> < ulp * 2 ^ 53"
  shows "double_round x = ulp * of_int (round_half_even (x / ulp))"
proof -
  have a: "2 powr of_int (j + 52) = ulp * 2 ^ 52"
    by (simp add: assms(1) powr_add)
  have b: "2 powr (of_int (j + 52) + 1) = ulp * 2 ^ 53"
    by (simp add: assms(1) powr_add)
  have "double_round x = 2 powr (of_int (j + 52) - 52) *
      of_int (round_half_even (x / 2 powr (of_int (j + 52) - 52)))"
    by (rule double_round_binade) (simp_all only: a b assms(2,3))
  then show ?thesis
    by (simp add: assms(1))
qed

lemma double_round_nearest:
  fixes j :: int
  assumes "ulp = 2 powr of_int j" and "ulp * 2 ^ 52 \<le> \<bar>x\<bar>" and "\<bar>x\<bar> < ulp * 2 ^ 53"
    and "\<bar>x - ulp * of_int z\<bar> < ulp / 2"
  shows "double_round x = ulp * of_int z"
proof -
  have ulp0: "0 < ulp"
    by (simp add: assms(1))
  have "x / ulp - of_int z = (x - ulp * of_int z) / ulp"
    using ulp0 by (simp add: field_simps)
  then have "\<bar>x / ulp - of_int z\<bar> = \<bar>x - ulp * of_int z\<bar> / ulp"
    using ulp0 by (simp add: abs_divide)
  also have "\<dots> < 1 / 2"
    using ulp0 assms(4) by (simp add: field_simps)
  finally have "round_half_even (x / ulp) = z"
    by (rule round_half_even_nearest)
  then show ?thesis
    using double_round_ulp [OF assms(1-3)] by simp
qed

lemma double_round_tie_even:
  fixes j :: int
  assumes "ulp = 2 powr of_int j" and "ulp * 2 ^ 52 \<le> \<bar>x\<bar>" and "\<bar>x\<bar> < ulp * 2 ^ 53"
    and "x = ulp * (of_int z + 1 / 2)" and "even z"
  shows "double_round x = ulp * of_int z"
proof -
  have ulp0: "0 < ulp"
    by (simp add: assms(1))
  have "x / ulp = of_int z + 1 / 2"
    using ulp0 by (simp add: assms(4))
  then have "round_half_even (x / ulp) = z"
    using assms(5) by (rule round_half_even_tie)
  then show ?thesis
    using double_round_ulp [OF assms(1-3)] by simp
qed

subsection \<open>Positive modulus\<close>

text \<open>The remainder lies strictly between \<open>-b\<close> and \<open>b\<close>.\<close>

lemma js_rem_bounds:
  assumes "0 < b"
  shows "- b < js_rem a b" and "js_rem a b < b"
proof -
  have fl: "of_int \<lfloor>a / b\<rfloor> \<le> a / b" "a / b < of_int \<lfloor>a / b\<rfloor> + 1"
    by linarith+
  have ce: "a / b \<le> of_int \<lceil>a / b\<rceil>" "of_int \<lceil>a / b\<rceil> < a / b + 1"
    by linarith+
  have eq: "a = b * (a / b)"
    using assms by simp
  show "- b < js_rem a b"
  proof (cases "a / b < 0")
    case True
    have "b * of_int \<lceil>a / b\<rceil> < b * (a / b + 1)"
      using assms ce(2) by (rule_tac mult_strict_left_mono)
    with eq True show ?thesis
      by (simp add: js_rem_def algebra_simps)
  next
    case False
    have "b * of_int \<lfloor>a / b\<rfloor> \<le> b * (a / b)"
      using assms fl(1) by (intro mult_left_mono) auto
    with eq False assms show ?thesis
      by (simp add: js_rem_def algebra_simps)
  qed
  show "js_rem a b < b"
  proof (cases "a / b < 0")
    case True
    have "b * (a / b) \<le> b * of_int \<lceil>a / b\<rceil>"
      using assms ce(1) by (intro mult_left_mono) auto
    with eq True assms show ?thesis
      by (simp add: js_rem_def algebra_simps)
  next
    case False
    have "b * (a / b) < b * (of_int \<lfloor>a / b\<rfloor> + 1)"
      using assms fl(2) by (rule_tac mult_strict_left_mono)
    with eq False show ?thesis
      by (simp add: js_rem_def algebra_simps)
  qed
qed

text \<open>
  C5 (the code departs from the claim). The claim, and the docstring of \<open>posmod\<close>:
  the value lies in \<open>[0, b)\<close> for every \<open>a\<close> and every \<open>b > 0\<close>. On the code,
  \<open>posmod(-2^-60, 1)\<close> has \<open>c = -2^-60 % 1 = -2^-60\<close>, which is negative, and returns
  \<open>c + b\<close>: the sum \<open>1 - 2^-60\<close> lies between the doubles \<open>1 - 2^-53\<close> and \<open>1\<close> and
  rounds to \<open>1\<close>, which is \<open>b\<close> itself.
\<close>

theorem posmod_returns_modulus:
  "js_rem (- (1 / 2 ^ 60)) 1 = - (1 / 2 ^ 60) \<and>
   posmod (- (1 / 2 ^ 60)) 1 = 1 \<and>
   \<not> posmod (- (1 / 2 ^ 60)) 1 < 1"
proof -
  have c: "js_rem (- (1 / 2 ^ 60)) 1 = - (1 / 2 ^ 60)"
    by (simp add: js_rem_def ceiling_eq_iff)
  have dr: "double_round (- (1 / 2 ^ 60) + 1) = 1"
    using double_round_nearest [of "1 / 2 ^ 53" "-53" "- (1 / 2 ^ 60) + 1" "2 ^ 53"]
    by (simp add: powr_neg_numeral)
  have "posmod (- (1 / 2 ^ 60)) 1 = double_round (- (1 / 2 ^ 60) + 1)"
    unfolding posmod_def c Let_def by simp
  then have "posmod (- (1 / 2 ^ 60)) 1 = 1"
    by (simp only: dr)
  with c show ?thesis
    by simp
qed

subsection \<open>Eccentric anomaly\<close>



















text \<open>
  C9. For every real mean anomaly \<open>M\<close> and every eccentricity \<open>e\<close> in \<open>[0,1)\<close>, the
  denominator \<open>1 - e cos E\<close> of the correction is at least \<open>1 - e > 0\<close> in the state
  after any number \<open>k\<close> of runs of the loop body, so the solver never divides by zero.
\<close>

theorem getEaFromMaE_denominator_positive:
  assumes "0 \<le> e" and "e < 1"
  shows "0 < 1 - e \<and>
         1 - e \<le> getEaFromMaE_df e (st_E_rad ((getEaFromMaE_body M e ^^ k) (getEaFromMaE_init M e))) \<and>
         getEaFromMaE_df e (st_E_rad ((getEaFromMaE_body M e ^^ k) (getEaFromMaE_init M e))) \<noteq> 0"
proof -
  have "e * cos x \<le> e * 1" for x
    using assms(1) by (intro mult_left_mono) auto
  then have ge: "1 - e \<le> getEaFromMaE_df e x" for x
    by (simp add: getEaFromMaE_df_def)
  have pos: "0 < 1 - e"
    using assms(2) by simp
  show ?thesis
    using pos ge [of "st_E_rad ((getEaFromMaE_body M e ^^ k) (getEaFromMaE_init M e))"]
    by auto
qed

theorem getEaFromMaE_denominator_positive_witness:
  "(0::real) \<le> 1 / 2 \<and> (1 / 2 :: real) < 1 \<and> (0::real) < 1 - 1 / 2 \<and>
   getEaFromMaE_df (1 / 2) (st_E_rad ((getEaFromMaE_body 0 (1 / 2) ^^ 0) (getEaFromMaE_init 0 (1 / 2)))) =
     1 - 1 / 2 * cos (1 / 4) \<and>
   1 - 1 / 2 \<le> getEaFromMaE_df (1 / 2) (st_E_rad ((getEaFromMaE_body 0 (1 / 2) ^^ 0) (getEaFromMaE_init 0 (1 / 2))))"
proof -
  have "getEaFromMaE_df (1 / 2) (st_E_rad ((getEaFromMaE_body 0 (1 / 2) ^^ 0) (getEaFromMaE_init 0 (1 / 2)))) =
     1 - 1 / 2 * cos (1 / 4)"
    by (simp add: getEaFromMaE_df_def getEaFromMaE_init_def)
  then show ?thesis
    using getEaFromMaE_denominator_positive [of "1 / 2" 0 0] by simp
qed

subsection \<open>True anomaly\<close>



subsection \<open>Perifocal position\<close>


lemma sin_cos_one: "sin x * sin x + cos x * cos x = (1::real)"
  using sin_cos_squared_add [of x] by (simp add: power2_eq_square)





subsection \<open>The transpose of an array of rows\<close>

lemma fold_update_upt:
  "n \<le> length xs \<Longrightarrow>
   fold (\<lambda>j ys. ys[j := g j (ys ! j)]) [0..<n] xs = map (\<lambda>j. g j (xs ! j)) [0..<n] @ drop n xs"
proof (induction n)
  case 0
  then show ?case by simp
next
  case (Suc n)
  then have n: "n < length xs" by simp
  have IH: "fold (\<lambda>j ys. ys[j := g j (ys ! j)]) [0..<n] xs =
      map (\<lambda>j. g j (xs ! j)) [0..<n] @ drop n xs"
    using Suc by simp
  have d: "drop n xs = xs ! n # drop (Suc n) xs"
    using n by (simp add: Cons_nth_drop_Suc)
  show ?case
    by (simp add: IH nth_append list_update_append) (simp add: d)
qed

text \<open>The inner loop, over \<open>j\<close>, stores column \<open>i\<close> of the result.\<close>

lemma transpose_inner:
  assumes "length Mt = J"
  shows "fold (\<lambda>j Mt. Mt[j := (Mt ! j)[i := M ! i ! j]]) [0..<J] Mt =
         map (\<lambda>j. (Mt ! j)[i := M ! i ! j]) [0..<J]"
  using fold_update_upt [of J Mt "\<lambda>j row. row[i := M ! i ! j]"] assms by simp

text \<open>
  The loop invariant of the outer loop: after \<open>k\<close> rounds the first \<open>k\<close> cells of
  every row of \<open>Mt\<close> are set and the others still hold the zero they were filled with.
\<close>

lemma transpose_outer:
  assumes "k \<le> I"
  shows "fold (\<lambda>i Mt. fold (\<lambda>j Mt. Mt[j := (Mt ! j)[i := M ! i ! j]]) [0..<J] Mt) [0..<k]
           (replicate J (replicate I 0)) =
         map (\<lambda>j. map (\<lambda>i. M ! i ! j) [0..<k] @ replicate (I - k) 0) [0..<J]"
  using assms
proof (induction k)
  case 0
  show ?case
    by (simp add: map_replicate_const)
next
  case (Suc k)
  then have k: "k < I" by simp
  have r: "replicate (I - k) (0::'a) = 0 # replicate (I - Suc k) 0"
    using k by (metis Suc_diff_Suc replicate_Suc)
  have IH: "fold (\<lambda>i Mt. fold (\<lambda>j Mt. Mt[j := (Mt ! j)[i := M ! i ! j]]) [0..<J] Mt) [0..<k]
           (replicate J (replicate I 0)) =
         map (\<lambda>j. map (\<lambda>i. M ! i ! j) [0..<k] @ replicate (I - k) 0) [0..<J]"
    using Suc by simp
  show ?case
    by (simp add: IH transpose_inner list_update_append r)
qed

lemma transpose_js_rect:
  assumes "M \<noteq> []" and "\<not> list_ex (\<lambda>row. length row < length (M ! 0)) M"
  shows "transpose_js M = Inr (map (\<lambda>j. map (\<lambda>i. M ! i ! j) [0..<length M]) [0..<length (M ! 0)])"
  using assms transpose_outer [of "length M" "length M" M "length (M ! 0)"]
  by (simp add: transpose_js_def Let_def)

text \<open>
  C10. \<open>transpose\<close> is an involution: for every non-empty rectangular matrix \<open>M\<close> (an
  array of equal-length non-empty rows, square or not), \<open>transpose(M)\<close> returns a
  matrix \<open>Mt\<close> and \<open>transpose(Mt)\<close> returns \<open>M\<close>.
\<close>

theorem transpose_js_involution:
  fixes M :: "'a::zero list list"
  assumes "M \<noteq> []" and "M ! 0 \<noteq> []" and "\<forall>row\<in>set M. length row = length (M ! 0)"
  shows "\<exists>Mt. transpose_js M = Inr Mt \<and> transpose_js Mt = Inr M"
proof -
  define I where "I = length M"
  define J where "J = length (M ! 0)"
  define Mt where "Mt = map (\<lambda>j. map (\<lambda>i. M ! i ! j) [0..<I]) [0..<J]"
  have I: "0 < I" and J: "0 < J"
    using assms(1,2) by (simp_all add: I_def J_def)
  have rows: "length (M ! i) = J" if "i < I" for i
    using assms(3) that by (simp add: I_def J_def)
  have "\<not> list_ex (\<lambda>row. length row < length (M ! 0)) M"
    using assms(3) by (simp add: list_ex_iff)
  then have 1: "transpose_js M = Inr Mt"
    using assms(1) by (simp add: transpose_js_rect Mt_def I_def J_def)
  have Mt_ne: "Mt \<noteq> []" and len_Mt: "length Mt = J"
    using J by (simp_all add: Mt_def)
  have Mt0: "length (Mt ! 0) = I"
    using J by (simp add: Mt_def)
  have "\<not> list_ex (\<lambda>row. length row < length (Mt ! 0)) Mt"
    unfolding Mt0 by (auto simp: list_ex_iff Mt_def)
  then have "transpose_js Mt =
      Inr (map (\<lambda>i. map (\<lambda>j. Mt ! j ! i) [0..<J]) [0..<I])"
    using Mt_ne by (simp add: transpose_js_rect len_Mt Mt0)
  also have "map (\<lambda>i. map (\<lambda>j. Mt ! j ! i) [0..<J]) [0..<I] = M"
  proof (rule nth_equalityI)
    show "length (map (\<lambda>i. map (\<lambda>j. Mt ! j ! i) [0..<J]) [0..<I]) = length M"
      by (simp add: I_def)
  next
    fix i
    assume "i < length (map (\<lambda>i. map (\<lambda>j. Mt ! j ! i) [0..<J]) [0..<I])"
    then have i: "i < I"
      by simp
    have "map (\<lambda>j. Mt ! j ! i) [0..<J] = map (\<lambda>j. M ! i ! j) [0..<J]"
      using i by (simp add: Mt_def)
    also have "\<dots> = map (nth (M ! i)) [0..<length (M ! i)]"
      using rows [OF i] by simp
    also have "\<dots> = M ! i"
      by (rule map_nth)
    finally show "map (\<lambda>i. map (\<lambda>j. Mt ! j ! i) [0..<J]) [0..<I] ! i = M ! i"
      using i by simp
  qed
  finally have 2: "transpose_js Mt = Inr M" .
  from 1 2 show ?thesis
    by blast
qed

theorem transpose_js_involution_witness:
  "transpose_js [[1, 2, 3], [4, 5, 6::real]] = Inr [[1, 4], [2, 5], [3, 6]] \<and>
   transpose_js [[1, 4], [2, 5], [3, 6::real]] = Inr [[1, 2, 3], [4, 5, 6]]"
proof -
  have 1: "transpose_js [[1, 2, 3], [4, 5, 6::real]] = Inr [[1, 4], [2, 5], [3, 6]]"
    by (simp add: transpose_js_def Let_def upt_rec numeral_2_eq_2 numeral_3_eq_3)
  have "\<exists>Mt. transpose_js [[1, 2, 3], [4, 5, 6::real]] = Inr Mt \<and>
      transpose_js Mt = Inr [[1, 2, 3], [4, 5, 6::real]]"
    by (rule transpose_js_involution) simp_all
  with 1 show ?thesis
    by simp
qed

subsection \<open>Frame transforms\<close>

lemma upt_0_3: "[0..<3] = [0, 1, 2]"
  by (simp add: upt_rec)

lemma getDotProd_3: "getDotProd [a, b, c] [x, y, z] = Inr (a * x + b * y + c * z)"
  by (simp add: getDotProd_def upt_0_3)

lemma getMatMul_3x3:
  "getMatMul [[a11, a12, a13], [a21, a22, a23], [a31, a32, a33]]
             [[b11, b12, b13], [b21, b22, b23], [b31, b32, b33]] =
   Inr [[a11 * b11 + a12 * b21 + a13 * b31, a11 * b12 + a12 * b22 + a13 * b32,
         a11 * b13 + a12 * b23 + a13 * b33],
        [a21 * b11 + a22 * b21 + a23 * b31, a21 * b12 + a22 * b22 + a23 * b32,
         a21 * b13 + a22 * b23 + a23 * b33],
        [a31 * b11 + a32 * b21 + a33 * b31, a31 * b12 + a32 * b22 + a33 * b32,
         a31 * b13 + a32 * b23 + a33 * b33]]"
  by (simp add: getMatMul_def getDotProd_3 Let_def)

lemma transpose_js_3x3:
  "transpose_js [[a11, a12, a13], [a21, a22, a23], [a31, a32, a33]] =
   Inr [[a11, a21, a31], [a12, a22, a32], [a13, a23, a33]]"
  by (simp add: transpose_js_def upt_0_3 Let_def numeral_3_eq_3)

text \<open>The direction cosine matrix that \<open>getQeci2pqw\<close> returns, entry by entry.\<close>

lemma getQeci2pqw_entries:
  "getQeci2pqw raan inc aop = Inr
    [[cos aop * cos raan - sin aop * cos inc * sin raan,
      cos aop * sin raan + sin aop * cos inc * cos raan,
      sin aop * sin inc],
     [- sin aop * cos raan - cos aop * cos inc * sin raan,
      - sin aop * sin raan + cos aop * cos inc * cos raan,
      cos aop * sin inc],
     [sin inc * sin raan, - sin inc * cos raan, cos inc]]"
  by (simp add: getQeci2pqw_def R1_def R3_def Let_def getMatMul_3x3)

lemma rotation_transpose_times:
  fixes c1 s1 c2 s2 c3 s3 :: real
  assumes "s1 * s1 + c1 * c1 = 1" and "s2 * s2 + c2 * c2 = 1" and "s3 * s3 + c3 * c3 = 1"
  shows "getMatMul
    [[c3 * c1 - s3 * c2 * s1, - s3 * c1 - c3 * c2 * s1, s2 * s1],
     [c3 * s1 + s3 * c2 * c1, - s3 * s1 + c3 * c2 * c1, - s2 * c1],
     [s3 * s2, c3 * s2, c2]]
    [[c3 * c1 - s3 * c2 * s1, c3 * s1 + s3 * c2 * c1, s3 * s2],
     [- s3 * c1 - c3 * c2 * s1, - s3 * s1 + c3 * c2 * c1, c3 * s2],
     [s2 * s1, - s2 * c1, c2]] = Inr identity3"
  using assms
  apply (simp only: getMatMul_3x3 identity3_def sum.inject list.inject)
  apply (intro conjI)
  apply (algebra | rule refl)+
  done

lemma rotation_times_transpose:
  fixes c1 s1 c2 s2 c3 s3 :: real
  assumes "s1 * s1 + c1 * c1 = 1" and "s2 * s2 + c2 * c2 = 1" and "s3 * s3 + c3 * c3 = 1"
  shows "getMatMul
    [[c3 * c1 - s3 * c2 * s1, c3 * s1 + s3 * c2 * c1, s3 * s2],
     [- s3 * c1 - c3 * c2 * s1, - s3 * s1 + c3 * c2 * c1, c3 * s2],
     [s2 * s1, - s2 * c1, c2]]
    [[c3 * c1 - s3 * c2 * s1, - s3 * c1 - c3 * c2 * s1, s2 * s1],
     [c3 * s1 + s3 * c2 * c1, - s3 * s1 + c3 * c2 * c1, - s2 * c1],
     [s3 * s2, c3 * s2, c2]] = Inr identity3"
  using assms
  apply (simp only: getMatMul_3x3 identity3_def sum.inject list.inject)
  apply (intro conjI)
  apply (algebra | rule refl)+
  done

text \<open>
  C3. For every triple of real angles (RAAN, inclination, argument of periapsis),
  \<open>getQeci2pqw\<close> returns a matrix \<open>Q\<close>, \<open>getQpqw2eci\<close> returns the transpose of \<open>Q\<close>,
  and the product of the two by \<open>getMatMul\<close>, in either order, is the 3x3 identity
  matrix (exactly, over the reals).
\<close>

theorem getQpqw2eci_transpose_inverse:
  "\<exists>Q. getQeci2pqw raan inc aop = Inr Q \<and>
        getQpqw2eci raan inc aop = transpose_js Q \<and>
        getQpqw2eci raan inc aop = Inr (List.transpose Q) \<and>
        getMatMul (List.transpose Q) Q = Inr identity3 \<and>
        getMatMul Q (List.transpose Q) = Inr identity3"
proof -
  let ?Q = "[[cos aop * cos raan - sin aop * cos inc * sin raan,
      cos aop * sin raan + sin aop * cos inc * cos raan,
      sin aop * sin inc],
     [- sin aop * cos raan - cos aop * cos inc * sin raan,
      - sin aop * sin raan + cos aop * cos inc * cos raan,
      cos aop * sin inc],
     [sin inc * sin raan, - sin inc * cos raan, cos inc]]"
  let ?Qt = "[[cos aop * cos raan - sin aop * cos inc * sin raan,
      - sin aop * cos raan - cos aop * cos inc * sin raan,
      sin inc * sin raan],
     [cos aop * sin raan + sin aop * cos inc * cos raan,
      - sin aop * sin raan + cos aop * cos inc * cos raan,
      - sin inc * cos raan],
     [sin aop * sin inc, cos aop * sin inc, cos inc]]"
  have Q: "getQeci2pqw raan inc aop = Inr ?Q"
    by (rule getQeci2pqw_entries)
  have T: "List.transpose ?Q = ?Qt"
    by simp
  have 1: "getQpqw2eci raan inc aop = transpose_js ?Q"
    by (simp only: getQpqw2eci_def Q sum.case)
  have 2: "getQpqw2eci raan inc aop = Inr (List.transpose ?Q)"
    by (simp only: 1 T transpose_js_3x3)
  have 3: "getMatMul (List.transpose ?Q) ?Q = Inr identity3"
    unfolding T by (rule rotation_transpose_times) (rule sin_cos_one)+
  have 4: "getMatMul ?Q (List.transpose ?Q) = Inr identity3"
    unfolding T by (rule rotation_times_transpose) (rule sin_cos_one)+
  from Q 1 2 3 4 show ?thesis
    by blast
qed

subsection \<open>Julian day number\<close>

text \<open>
  C7. \<open>getJ0FromDatevec(2004, 5, 12)\<close> is exactly \<open>2453137.5\<close> and
  \<open>getJ0FromDatevec(1957, 10, 4)\<close> is exactly \<open>2436115.5\<close>.
\<close>

theorem getJ0FromDatevec_examples:
  "getJ0FromDatevec 2004 5 12 = 2453137.5 \<and> getJ0FromDatevec 1957 10 4 = 2436115.5"
  by (simp add: getJ0FromDatevec_def INT_js_def)

subsection \<open>Linear extrapolation\<close>

text \<open>
  The value of \<open>getCurrentElements\<close> is within two roundings of \<open>Q0 + dQ T\<close>.
\<close>

lemma getCurrentElements_error:
  fixes u :: real
  defines "u \<equiv> 1 / 2 ^ 53"
  shows "\<bar>getCurrentElements a b T - (a + b * T)\<bar> \<le> (2 * u + u * u) * (\<bar>a\<bar> + \<bar>b * T\<bar>)"
proof -
  define p where "p = double_round (b * T)"
  have u0: "0 \<le> u"
    by (simp add: u_def)
  have p1: "\<bar>p - b * T\<bar> \<le> u * \<bar>b * T\<bar>"
    using double_round_error [of "b * T"] by (simp add: p_def u_def)
  then have "\<bar>a + p\<bar> \<le> \<bar>a\<bar> + \<bar>b * T\<bar> + u * \<bar>b * T\<bar>"
    by linarith
  then have "u * \<bar>a + p\<bar> \<le> u * (\<bar>a\<bar> + \<bar>b * T\<bar> + u * \<bar>b * T\<bar>)"
    using u0 by (rule mult_left_mono)
  moreover have "\<bar>double_round (a + p) - (a + p)\<bar> \<le> u * \<bar>a + p\<bar>"
    using double_round_error [of "a + p"] by (simp add: u_def)
  ultimately have "\<bar>double_round (a + p) - (a + b * T)\<bar> \<le>
      u * (\<bar>a\<bar> + \<bar>b * T\<bar> + u * \<bar>b * T\<bar>) + u * \<bar>b * T\<bar>"
    using p1 by linarith
  also have "\<dots> \<le> (2 * u + u * u) * (\<bar>a\<bar> + \<bar>b * T\<bar>)"
  proof -
    have "0 \<le> u * \<bar>a\<bar>" and "0 \<le> u * u * \<bar>a\<bar>"
      using u0 by simp_all
    then show ?thesis
      by (simp add: algebra_simps)
  qed
  finally show ?thesis
    by (simp add: getCurrentElements_def p_def)
qed

text \<open>
  C8 (the claim as stated fails). The claim: \<open>getCurrentElements(k*Q0, k*dQ, T)\<close> equals
  \<open>k * getCurrentElements(Q0, dQ, T)\<close> for all numbers. With \<open>k = 3\<close>, \<open>Q0 = 1\<close>,
  \<open>dQ = 2^-53\<close> and \<open>T = 1\<close> the products \<open>k*Q0 = 3\<close> and \<open>k*dQ = 3 * 2^-53\<close> are
  exact; \<open>3 + 3 * 2^-53\<close> rounds up to \<open>3 + 2^-51\<close>, while \<open>1 + 2^-53\<close> is a tie that
  rounds to \<open>1\<close>, and three times that is \<open>3\<close>.
\<close>

theorem getCurrentElements_scale_counterexample:
  "double_round (3 * 1) = 3 \<and> double_round (3 * (1 / 2 ^ 53)) = 3 / 2 ^ 53 \<and>
   getCurrentElements (double_round (3 * 1)) (double_round (3 * (1 / 2 ^ 53))) 1 = 3 + 1 / 2 ^ 51 \<and>
   getCurrentElements 1 (1 / 2 ^ 53) 1 = 1 \<and>
   double_round (3 * getCurrentElements 1 (1 / 2 ^ 53) 1) = 3 \<and>
   getCurrentElements (double_round (3 * 1)) (double_round (3 * (1 / 2 ^ 53))) 1 \<noteq>
     double_round (3 * getCurrentElements 1 (1 / 2 ^ 53) 1)"
proof -
  have r3: "double_round 3 = 3"
    using double_round_nearest [of "1 / 2 ^ 51" "-51" 3 "3 * 2 ^ 51"]
    by (simp add: powr_neg_numeral)
  have r3u: "double_round (3 / 2 ^ 53) = 3 / 2 ^ 53"
    using double_round_nearest [of "1 / 2 ^ 104" "-104" "3 / 2 ^ 53" "3 * 2 ^ 51"]
    by (simp add: powr_neg_numeral)
  have ru: "double_round (1 / 2 ^ 53) = 1 / 2 ^ 53"
    using double_round_nearest [of "1 / 2 ^ 105" "-105" "1 / 2 ^ 53" "2 ^ 52"]
    by (simp add: powr_neg_numeral)
  have up: "double_round (3 + 3 / 2 ^ 53) = 3 + 1 / 2 ^ 51"
    using double_round_nearest [of "1 / 2 ^ 51" "-51" "3 + 3 / 2 ^ 53" "3 * 2 ^ 51 + 1"]
    by (simp add: powr_neg_numeral)
  have tie: "double_round (1 + 1 / 2 ^ 53) = 1"
    using double_round_tie_even [of "1 / 2 ^ 52" "-52" "1 + 1 / 2 ^ 53" "2 ^ 52"]
    by (simp add: powr_neg_numeral)
  have a: "double_round (3 * 1) = 3"
    using r3 by simp
  have b: "double_round (3 * (1 / 2 ^ 53)) = 3 / 2 ^ 53"
    using r3u by simp
  have lhs: "getCurrentElements 3 (3 / 2 ^ 53) 1 = 3 + 1 / 2 ^ 51"
    unfolding getCurrentElements_def mult_1_right r3u up ..
  have inner: "getCurrentElements 1 (1 / 2 ^ 53) 1 = 1"
    unfolding getCurrentElements_def mult_1_right ru tie ..
  have rhs: "double_round (3 * getCurrentElements 1 (1 / 2 ^ 53) 1) = 3"
    unfolding inner mult_1_right r3 ..
  have "(3 + 1 / 2 ^ 51 :: real) \<noteq> 3"
    by simp
  then show ?thesis
    unfolding a b lhs inner mult_1_right r3 by simp
qed

text \<open>
  C8 (as amended). Linear extrapolation commutes with a change of unit up to
  rounding: for every factor \<open>k\<close> and all numbers \<open>Q0\<close>, \<open>dQ\<close>, \<open>T\<close>, converting before
  the extrapolation, \<open>getCurrentElements(k*Q0, k*dQ, T)\<close>, and converting after it,
  \<open>k * getCurrentElements(Q0, dQ, T)\<close>, are each within \<open>2^-51 \<bar>k\<bar> (\<bar>Q0\<bar> + \<bar>dQ T\<bar>)\<close>
  of the exact \<open>k (Q0 + dQ T)\<close>, and so within \<open>2^-50 \<bar>k\<bar> (\<bar>Q0\<bar> + \<bar>dQ T\<bar>)\<close> of each
  other. Every product and sum of the code is rounded to a double.
\<close>

theorem getCurrentElements_scale:
  "\<bar>getCurrentElements (double_round (k * Q0)) (double_round (k * dQ)) T - k * (Q0 + dQ * T)\<bar>
     \<le> \<bar>k\<bar> * (\<bar>Q0\<bar> + \<bar>dQ * T\<bar>) / 2 ^ 51 \<and>
   \<bar>double_round (k * getCurrentElements Q0 dQ T) - k * (Q0 + dQ * T)\<bar>
     \<le> \<bar>k\<bar> * (\<bar>Q0\<bar> + \<bar>dQ * T\<bar>) / 2 ^ 51 \<and>
   \<bar>getCurrentElements (double_round (k * Q0)) (double_round (k * dQ)) T -
      double_round (k * getCurrentElements Q0 dQ T)\<bar>
     \<le> \<bar>k\<bar> * (\<bar>Q0\<bar> + \<bar>dQ * T\<bar>) / 2 ^ 50"
proof -
  define u :: real where "u = 1 / 2 ^ 53"
  define W where "W = \<bar>Q0\<bar> + \<bar>dQ * T\<bar>"
  define S where "S = \<bar>k\<bar> * W"
  define a where "a = double_round (k * Q0)"
  define b where "b = double_round (k * dQ)"
  define g where "g = getCurrentElements Q0 dQ T"
  have u0: "0 \<le> u"
    by (simp add: u_def)
  have W0: "0 \<le> W"
    by (simp add: W_def)
  have S0: "0 \<le> S"
    by (simp add: S_def W0)
  have Seq: "S = \<bar>k * Q0\<bar> + \<bar>k * dQ * T\<bar>"
    by (simp add: S_def W_def abs_mult algebra_simps)
  have c1: "(2 * u + u * u) * (1 + u) + u \<le> 4 * u"
    by (simp add: u_def)
  have c2: "u * (1 + (2 * u + u * u)) + (2 * u + u * u) \<le> 4 * u"
    by (simp add: u_def)
  \<comment> \<open>converting first\<close>
  have a1: "\<bar>a - k * Q0\<bar> \<le> u * \<bar>k * Q0\<bar>"
    using double_round_error [of "k * Q0"] by (simp add: a_def u_def)
  have "\<bar>b - k * dQ\<bar> \<le> u * \<bar>k * dQ\<bar>"
    using double_round_error [of "k * dQ"] by (simp add: b_def u_def)
  then have "\<bar>b - k * dQ\<bar> * \<bar>T\<bar> \<le> u * \<bar>k * dQ\<bar> * \<bar>T\<bar>"
    by (rule mult_right_mono) simp
  then have b1: "\<bar>b * T - k * dQ * T\<bar> \<le> u * \<bar>k * dQ * T\<bar>"
    by (simp add: abs_mult [symmetric] algebra_simps)
  have ab: "\<bar>a\<bar> + \<bar>b * T\<bar> \<le> (1 + u) * S"
    using a1 b1 unfolding Seq by (simp add: algebra_simps; linarith)
  have "\<bar>getCurrentElements a b T - (a + b * T)\<bar> \<le> (2 * u + u * u) * (\<bar>a\<bar> + \<bar>b * T\<bar>)"
    unfolding u_def by (rule getCurrentElements_error)
  also have "\<dots> \<le> (2 * u + u * u) * ((1 + u) * S)"
    using ab u0 by (intro mult_left_mono) simp_all
  finally have "\<bar>getCurrentElements a b T - (a + b * T)\<bar> \<le> (2 * u + u * u) * (1 + u) * S"
    by (simp add: mult.assoc)
  moreover have "\<bar>(a + b * T) - k * (Q0 + dQ * T)\<bar> \<le> u * S"
    using a1 b1 unfolding Seq by (simp add: algebra_simps; linarith)
  ultimately have "\<bar>getCurrentElements a b T - k * (Q0 + dQ * T)\<bar> \<le>
      (2 * u + u * u) * (1 + u) * S + u * S"
    by linarith
  also have "\<dots> = ((2 * u + u * u) * (1 + u) + u) * S"
    by (simp add: algebra_simps)
  also have "\<dots> \<le> 4 * u * S"
    using c1 S0 by (rule mult_right_mono)
  finally have first: "\<bar>getCurrentElements a b T - k * (Q0 + dQ * T)\<bar> \<le> 4 * u * S" .
  \<comment> \<open>converting afterwards\<close>
  have g1: "\<bar>g - (Q0 + dQ * T)\<bar> \<le> (2 * u + u * u) * W"
    unfolding g_def W_def u_def by (rule getCurrentElements_error)
  then have "\<bar>g\<bar> \<le> W + (2 * u + u * u) * W"
    unfolding W_def by linarith
  then have g2: "\<bar>k\<bar> * \<bar>g\<bar> \<le> \<bar>k\<bar> * (W + (2 * u + u * u) * W)"
    by (intro mult_left_mono) simp_all
  have "\<bar>double_round (k * g) - k * g\<bar> \<le> u * \<bar>k * g\<bar>"
    using double_round_error [of "k * g"] by (simp add: u_def)
  also have "\<dots> = u * (\<bar>k\<bar> * \<bar>g\<bar>)"
    by (simp add: abs_mult)
  also have "\<dots> \<le> u * (\<bar>k\<bar> * (W + (2 * u + u * u) * W))"
    using g2 u0 by (rule mult_left_mono)
  finally have r1: "\<bar>double_round (k * g) - k * g\<bar> \<le> u * (1 + (2 * u + u * u)) * S"
    by (simp add: S_def algebra_simps)
  have "\<bar>k\<bar> * \<bar>g - (Q0 + dQ * T)\<bar> \<le> \<bar>k\<bar> * ((2 * u + u * u) * W)"
    using g1 by (intro mult_left_mono) simp_all
  then have r2: "\<bar>k * g - k * (Q0 + dQ * T)\<bar> \<le> (2 * u + u * u) * S"
    by (simp add: abs_mult [symmetric] S_def algebra_simps)
  from r1 r2 have "\<bar>double_round (k * g) - k * (Q0 + dQ * T)\<bar> \<le>
      u * (1 + (2 * u + u * u)) * S + (2 * u + u * u) * S"
    by linarith
  also have "\<dots> = (u * (1 + (2 * u + u * u)) + (2 * u + u * u)) * S"
    by (simp add: algebra_simps)
  also have "\<dots> \<le> 4 * u * S"
    using c2 S0 by (rule mult_right_mono)
  finally have second: "\<bar>double_round (k * g) - k * (Q0 + dQ * T)\<bar> \<le> 4 * u * S" .
  from first second
  have both: "\<bar>getCurrentElements a b T - double_round (k * g)\<bar> \<le> 8 * u * S"
    by linarith
  have e1: "4 * u * S = \<bar>k\<bar> * (\<bar>Q0\<bar> + \<bar>dQ * T\<bar>) / 2 ^ 51"
    by (simp add: u_def S_def W_def)
  have e2: "8 * u * S = \<bar>k\<bar> * (\<bar>Q0\<bar> + \<bar>dQ * T\<bar>) / 2 ^ 50"
    by (simp add: u_def S_def W_def)
  show ?thesis
    using first second both unfolding e1 e2 a_def b_def g_def by blast
qed

end
